theory Spec2Isabelle
  imports Complex_Main
begin

section \<open>Errors and results\<close>

text \<open>
  Every exception the Python code can raise is a value. A function that can raise returns
  \<open>error + 'a\<close>, with \<open>Inl\<close> for the exception.
\<close>

datatype error =
    NameError string
  | ValueError string
  | AttributeError
  | AssertionError
  | RuntimeError
  | IndexError
  | ZeroDivisionError
  | UnboundLocalError
  | FileNotFoundError

section \<open>models/resnet\_simclr.py: SimCLRResNet.forward\<close>

text \<open>
  The backbone and the projection heads are layers of the framework; they are parameters
  of the model. \<open>detach\<close> only cuts the gradient, the value is unchanged.
\<close>

record ('i, 'v) SimCLRResNet =
  penultimate_layers :: "'i \<Rightarrow> 'v"
  simclr_layer :: "'v \<Rightarrow> 'v"
  simsiam_prj_layer :: "'v \<Rightarrow> 'v"
  simsiam_pred_layer :: "'v \<Rightarrow> 'v"
  vicReg_layer :: "'v \<Rightarrow> 'v"

definition detach :: "'v \<Rightarrow> 'v" where
  "detach x = x"

definition forward ::
  "('i, 'v) SimCLRResNet \<Rightarrow> 'i \<Rightarrow> bool \<Rightarrow> bool \<Rightarrow> bool \<Rightarrow> bool \<Rightarrow> bool
     \<Rightarrow> error + (string \<rightharpoonup> 'v)" where
  "forward net inputs penultimate simclr simsiam vicReg freeze =
     (if \<not> (penultimate \<or> simclr) then Inl AssertionError
      else
        let features = penultimate_layers net inputs;
            features = (if freeze then detach features else features);
            aux = Map.empty;
            aux = (if penultimate then aux(''penultimate'' \<mapsto> features) else aux);
            aux = (if simclr then aux(''simclr'' \<mapsto> simclr_layer net features) else aux);
            aux = (if simsiam
                   then let prj = simsiam_prj_layer net features;
                            pred = simsiam_pred_layer net prj
                        in aux(''simsiam_prj'' \<mapsto> prj, ''simsiam_pred'' \<mapsto> pred)
                   else aux);
            aux = (if vicReg then aux(''vicReg'' \<mapsto> vicReg_layer net features) else aux)
        in Inr aux)"

text \<open>The keys the caller asked for.\<close>

definition requested_keys :: "bool \<Rightarrow> bool \<Rightarrow> bool \<Rightarrow> bool \<Rightarrow> string set" where
  "requested_keys penultimate simclr simsiam vicReg =
     (if penultimate then {''penultimate''} else {})
     \<union> (if simclr then {''simclr''} else {})
     \<union> (if simsiam then {''simsiam_prj'', ''simsiam_pred''} else {})
     \<union> (if vicReg then {''vicReg''} else {})"

section \<open>Tensors\<close>

text \<open>
  A one-dimensional tensor with its dtype. The files of the program hold float32
  tensors; a label file given by hand may as well hold an int64 tensor. A float32 entry
  is the real number it stands for. Every float32 operation rounds its exact result to
  float32: that rounding is the parameter \<open>rnd\<close> of the functions below, so what is
  proved of them holds for the rounding of the machine. Overflow to an infinity is not
  modelled.
\<close>

datatype tensor = FloatTensor "real list" | LongTensor "int list"

text \<open>The entries of a tensor as numbers, whatever the dtype.\<close>

fun tensor_values :: "tensor \<Rightarrow> real list" where
  "tensor_values (FloatTensor xs) = xs"
| "tensor_values (LongTensor xs) = map real_of_int xs"

definition numel :: "tensor \<Rightarrow> nat" where
  "numel t = length (tensor_values t)"

text \<open>The conversion of a Python float to int64: the fraction is cut off.\<close>

definition float_to_int64 :: "real \<Rightarrow> int" where
  "float_to_int64 v = (if 0 \<le> v then \<lfloor>v\<rfloor> else \<lceil>v\<rceil>)"

text \<open>Addition of int64 wraps around.\<close>

definition wrap64 :: "int \<Rightarrow> int" where
  "wrap64 x = (x + 2 ^ 63) mod 2 ^ 64 - 2 ^ 63"

text \<open>
  The number that an entry holds after the Python float \<open>v\<close> has been assigned to it.
\<close>

fun stored :: "(real \<Rightarrow> real) \<Rightarrow> tensor \<Rightarrow> real \<Rightarrow> real" where
  "stored rnd (FloatTensor _) v = rnd v"
| "stored rnd (LongTensor _) v = real_of_int (float_to_int64 v)"

section \<open>Sampling weights of the oversampling solvers\<close>

text \<open>
  The block shared by \<open>OversampleSolver.train_with_oversampling\<close> and
  \<open>ERMSolver.__init__\<close>:
  \<^verbatim>\<open>
  upweight = torch.ones_like(wrong_label)
  if self.args.finetune:
      indices = np.load(...)
      for ind, _ in enumerate(upweight):
          if ind not in indices:
              upweight[ind] = 0
  upweight[wrong_label == 1] = self.args.lambda_upweight
  \<close>
  \<open>ones_like\<close> keeps the dtype of the wrong labels, and so do the assignments.
\<close>

fun ones_like :: "tensor \<Rightarrow> tensor" where
  "ones_like (FloatTensor xs) = FloatTensor (map (\<lambda>_. 1) xs)"
| "ones_like (LongTensor xs) = LongTensor (map (\<lambda>_. 1) xs)"

text \<open>\<open>upweight[ind] = 0\<close>.\<close>

fun set_zero :: "tensor \<Rightarrow> nat \<Rightarrow> tensor" where
  "set_zero (FloatTensor xs) ind = FloatTensor (xs[ind := 0])"
| "set_zero (LongTensor xs) ind = LongTensor (xs[ind := 0])"

text \<open>The loop over \<open>enumerate(upweight)\<close>, one index after the other.\<close>

fun zero_outside :: "nat list \<Rightarrow> nat list \<Rightarrow> tensor \<Rightarrow> tensor" where
  "zero_outside indices [] upweight = upweight"
| "zero_outside indices (ind # rest) upweight =
     zero_outside indices rest
       (if ind \<notin> set indices then set_zero upweight ind else upweight)"

text \<open>The mask \<open>wrong_label == 1\<close>.\<close>

definition equals_one :: "tensor \<Rightarrow> bool list" where
  "equals_one wrong_label = map (\<lambda>w. w = 1) (tensor_values wrong_label)"

text \<open>
  The masked assignment \<open>upweight[mask] = v\<close> of a Python float, on a mask of the shape
  of the tensor: the float is rounded to float32, or cut to int64.
\<close>

fun assign_where :: "(real \<Rightarrow> real) \<Rightarrow> tensor \<Rightarrow> bool list \<Rightarrow> real \<Rightarrow> tensor" where
  "assign_where rnd (FloatTensor us) msk v =
     FloatTensor (map (\<lambda>(u, m). if m then rnd v else u) (zip us msk))"
| "assign_where rnd (LongTensor us) msk v =
     LongTensor (map (\<lambda>(u, m). if m then float_to_int64 v else u) (zip us msk))"

definition make_upweight ::
  "(real \<Rightarrow> real) \<Rightarrow> bool \<Rightarrow> nat list \<Rightarrow> tensor \<Rightarrow> real \<Rightarrow> tensor" where
  "make_upweight rnd finetune indices wrong_label lambda_upweight =
     (let upweight = ones_like wrong_label;
          upweight = (if finetune
                      then zero_outside indices [0..<numel upweight] upweight
                      else upweight)
      in assign_where rnd upweight (equals_one wrong_label) lambda_upweight)"

section \<open>training/OversampleSolver.py\<close>

text \<open>
  The command-line arguments the modelled functions read. \<open>score_file_template\<close> is a
  function of the arguments object (it is built outside the files at hand) and
  \<open>finetune_ratio\<close> is kept as it prints in a file name.
\<close>

record args =
  data :: string
  checkpoint_dir :: string
  lambda_list :: "real list"
  cutoff :: real
  score_file_template :: "real \<Rightarrow> string"
  oversample_pth :: "string option"
  finetune :: bool
  finetune_ratio :: string
  lambda_upweight :: real
  simclr_epochs :: nat

text \<open>
  The files the solvers read and write: tensors saved with \<open>torch.save\<close>, index arrays
  saved with \<open>np.save\<close>, and the checkpoints (step and token) that
  \<open>_load_checkpoint\<close> can load. \<open>CheckpointIO\<close> is not among the files at hand, so
  whether a checkpoint loads is read from this set.
\<close>

record files =
  tensors :: "string \<rightharpoonup> tensor"
  arrays :: "string \<rightharpoonup> nat list"
  checkpoints :: "(nat \<times> string) set"

text \<open>\<open>os.path.join\<close> of two components (POSIX).\<close>

definition ospj :: "string \<Rightarrow> string \<Rightarrow> string" where
  "ospj a b =
     (if b \<noteq> [] \<and> hd b = CHR ''/'' then b
      else if a = [] \<or> last a = CHR ''/'' then a @ b
      else a @ ''/'' @ b)"

definition torch_load :: "files \<Rightarrow> string \<Rightarrow> error + tensor" where
  "torch_load fs path = (case tensors fs path of None \<Rightarrow> Inl FileNotFoundError | Some t \<Rightarrow> Inr t)"

definition np_load :: "files \<Rightarrow> string \<Rightarrow> error + nat list" where
  "np_load fs path = (case arrays fs path of None \<Rightarrow> Inl FileNotFoundError | Some t \<Rightarrow> Inr t)"

definition torch_save :: "tensor \<Rightarrow> string \<Rightarrow> files \<Rightarrow> files" where
  "torch_save t path fs = fs\<lparr>tensors := (tensors fs)(path \<mapsto> t)\<rparr>"

definition path_exists :: "files \<Rightarrow> string \<Rightarrow> bool" where
  "path_exists fs path = (path \<in> dom (tensors fs) \<or> path \<in> dom (arrays fs))"

definition load_checkpoint :: "files \<Rightarrow> nat \<Rightarrow> string \<Rightarrow> error + unit" where
  "load_checkpoint fs step token =
     (if (step, token) \<in> checkpoints fs then Inr () else Inl FileNotFoundError)"

text \<open>
  An in-place operation entry by entry on one-dimensional tensors: the shapes agree, or
  the second tensor has one element and is broadcast; anything else raises.
\<close>

definition inplace_zip :: "('a \<Rightarrow> 'b \<Rightarrow> 'a) \<Rightarrow> 'a list \<Rightarrow> 'b list \<Rightarrow> error + 'a list" where
  "inplace_zip f xs ys =
     (if length ys = length xs then Inr (map (\<lambda>(x, y). f x y) (zip xs ys))
      else if length ys = 1 then Inr (map (\<lambda>x. f x (hd ys)) xs)
      else Inl RuntimeError)"

text \<open>
  \<open>score += new_score\<close>. The sum of two float32 entries is rounded; an int64 tensor
  that is added to a float32 tensor is converted first; a float32 tensor cannot be
  added into an int64 tensor.
\<close>

definition iadd :: "(real \<Rightarrow> real) \<Rightarrow> tensor \<Rightarrow> tensor \<Rightarrow> error + tensor" where
  "iadd rnd score new_score =
     (case (score, new_score) of
        (FloatTensor s, FloatTensor t) \<Rightarrow>
          (case inplace_zip (\<lambda>x y. rnd (x + y)) s t of
             Inl e \<Rightarrow> Inl e | Inr r \<Rightarrow> Inr (FloatTensor r))
      | (FloatTensor s, LongTensor t) \<Rightarrow>
          (case inplace_zip (\<lambda>x y. rnd (x + rnd (real_of_int y))) s t of
             Inl e \<Rightarrow> Inl e | Inr r \<Rightarrow> Inr (FloatTensor r))
      | (LongTensor s, FloatTensor t) \<Rightarrow> Inl RuntimeError
      | (LongTensor s, LongTensor t) \<Rightarrow>
          (case inplace_zip (\<lambda>x y. wrap64 (x + y)) s t of
             Inl e \<Rightarrow> Inl e | Inr r \<Rightarrow> Inr (LongTensor r)))"

definition score_file_name :: "args \<Rightarrow> real \<Rightarrow> string" where
  "score_file_name a ld = ospj (score_file_template a ld) ''score_idx.pth''"

text \<open>The loop \<open>for ld in self.args.lambda_list\<close>.\<close>

fun add_scores ::
  "(real \<Rightarrow> real) \<Rightarrow> args \<Rightarrow> files \<Rightarrow> real list \<Rightarrow> tensor \<Rightarrow> error + tensor" where
  "add_scores rnd a fs [] score = Inr score"
| "add_scores rnd a fs (ld # lds) score =
     (if ld = 0 then add_scores rnd a fs lds score
      else case torch_load fs (score_file_name a ld) of
             Inl e \<Rightarrow> Inl e
           | Inr new_score \<Rightarrow>
               (case iadd rnd score new_score of
                  Inl e \<Rightarrow> Inl e
                | Inr score' \<Rightarrow> add_scores rnd a fs lds score'))"

text \<open>
  \<open>score /= len(lambda_list)\<close> followed by \<open>(score > cutoff).float()\<close>, entry by entry
  of a float32 tensor: the quotient is rounded, and the cutoff is compared as a float32.
  With an empty list the division is by zero: a positive entry becomes \<open>+inf\<close>, which
  is above every cutoff, and any other entry becomes \<open>-inf\<close> or NaN, which is above
  none.
\<close>

definition above_cutoff :: "(real \<Rightarrow> real) \<Rightarrow> nat \<Rightarrow> real \<Rightarrow> real \<Rightarrow> real" where
  "above_cutoff rnd n c s =
     (if n = 0 then (if 0 < s then 1 else 0)
      else (if rnd c < rnd (s / rnd (real n)) then 1 else 0))"

text \<open>The in-place division of an int64 tensor raises.\<close>

definition compute_pseudo_label :: "(real \<Rightarrow> real) \<Rightarrow> args \<Rightarrow> files \<Rightarrow> error + tensor" where
  "compute_pseudo_label rnd a fs =
     (case torch_load fs (score_file_name a 0) of
        Inl e \<Rightarrow> Inl e
      | Inr score \<Rightarrow>
          (case add_scores rnd a fs (lambda_list a) score of
             Inl e \<Rightarrow> Inl e
           | Inr (LongTensor _) \<Rightarrow> Inl RuntimeError
           | Inr (FloatTensor score') \<Rightarrow>
               Inr (FloatTensor
                      (map (above_cutoff rnd (length (lambda_list a)) (cutoff a)) score'))))"

text \<open>
  \<open>pseudo_label_precision_recall\<close> only prints and logs; it raises when the two
  tensors cannot be combined entry by entry.
\<close>

definition pseudo_label_precision_recall :: "tensor \<Rightarrow> tensor \<Rightarrow> error + unit" where
  "pseudo_label_precision_recall wrong_label debias_label =
     (if numel wrong_label = numel debias_label
         \<or> numel wrong_label = 1 \<or> numel debias_label = 1
      then Inr () else Inl RuntimeError)"

definition make_pseudo_label ::
  "(real \<Rightarrow> real) \<Rightarrow> args \<Rightarrow> files \<Rightarrow> (error + unit) \<times> files" where
  "make_pseudo_label rnd a fs =
     (case compute_pseudo_label rnd a fs of
        Inl e \<Rightarrow> (Inl e, fs)
      | Inr pseudo_label \<Rightarrow>
          let wrong_idx_path = ospj (checkpoint_dir a) ''wrong_index_final.pth'';
              fs' = torch_save pseudo_label wrong_idx_path fs
          in if data a \<noteq> ''imagenet''
             then (case torch_load fs' (ospj (checkpoint_dir a) ''debias_idx.pth'') of
                     Inl e \<Rightarrow> (Inl e, fs')
                   | Inr debias_label \<Rightarrow>
                       (pseudo_label_precision_recall pseudo_label debias_label, fs'))
             else (Inr (), fs'))"

text \<open>
  The sampling weights built from the saved wrong labels; with \<open>finetune\<close> the subset
  indices are loaded first.
\<close>

definition load_upweight :: "(real \<Rightarrow> real) \<Rightarrow> args \<Rightarrow> files \<Rightarrow> string \<Rightarrow> error + tensor" where
  "load_upweight rnd a fs pth =
     (case torch_load fs pth of
        Inl e \<Rightarrow> Inl e
      | Inr wrong_label \<Rightarrow>
          if finetune a
          then (case np_load fs (ospj (checkpoint_dir a)
                                   (''subset_indices_'' @ finetune_ratio a @ ''.npy'')) of
                  Inl e \<Rightarrow> Inl e
                | Inr indices \<Rightarrow>
                    Inr (make_upweight rnd True indices wrong_label (lambda_upweight a)))
          else Inr (make_upweight rnd False [] wrong_label (lambda_upweight a)))"

text \<open>
  What \<open>train_with_oversampling\<close> hands to \<open>linear_evaluation\<close> (which is part of
  \<open>LinearEvalSolver\<close> and not modelled): the sampling weights of the loader, the token
  and the finetune flag.
\<close>

record evaluation_call =
  sampling_weight :: tensor
  token :: string
  with_finetune :: bool

definition train_with_oversampling ::
  "(real \<Rightarrow> real) \<Rightarrow> args \<Rightarrow> files \<Rightarrow> (error + evaluation_call) \<times> files" where
  "train_with_oversampling rnd a fs =
     (let final_index_pth = ospj (checkpoint_dir a) ''wrong_index_final.pth'';
          (r, fs') =
            (case oversample_pth a of
               Some pth \<Rightarrow>
                 if \<not> path_exists fs pth
                 then (Inl (ValueError (pth @ '' does not exists'')), fs)
                 else (Inr pth, fs)
             | None \<Rightarrow>
                 if path_exists fs final_index_pth then (Inr final_index_pth, fs)
                 else (case make_pseudo_label rnd a fs of
                         (Inl e, fs') \<Rightarrow> (Inl e, fs')
                       | (Inr _, fs') \<Rightarrow> (Inr final_index_pth, fs')))
      in case r of
           Inl e \<Rightarrow> (Inl e, fs')
         | Inr pth \<Rightarrow>
             if load_checkpoint fs' (simclr_epochs a) ''biased_simclr'' \<noteq> Inr ()
                \<or> \<not> path_exists fs' pth
             then (Inl (ValueError
                     ''Either pretrained SimCLR or pseudo bias label does not exist''), fs')
             else (case load_upweight rnd a fs' pth of
                     Inl e \<Rightarrow> (Inl e, fs')
                   | Inr upweight \<Rightarrow>
                       (Inr \<lparr>sampling_weight = upweight,
                             token = (if \<not> finetune a then ''debiased_linear''
                                      else ''debiased_finetune''),
                             with_finetune = finetune a\<rparr>, fs')))"

text \<open>
  The branch of \<open>ERMSolver.__init__\<close> that replaces the training loader by a weighted
  one. The result is the sampling weight of the training loader, \<open>None\<close> when the
  loader keeps its uniform sampling.
\<close>

definition ERMSolver_init_sampling_weight ::
  "(real \<Rightarrow> real) \<Rightarrow> args \<Rightarrow> files \<Rightarrow> error + tensor option" where
  "ERMSolver_init_sampling_weight rnd a fs =
     (case oversample_pth a of
        None \<Rightarrow> Inr None
      | Some pth \<Rightarrow>
          if lambda_upweight a \<noteq> 1
          then (case load_upweight rnd a fs pth of
                  Inl e \<Rightarrow> Inl e | Inr upweight \<Rightarrow> Inr (Some upweight))
          else Inr None)"

text \<open>
  The file the wrong labels are read from: the path given by hand, or the file of the
  ensembled pseudo label.
\<close>

definition wrong_label_path :: "args \<Rightarrow> string" where
  "wrong_label_path a =
     (case oversample_pth a of
        Some pth \<Rightarrow> pth
      | None \<Rightarrow> ospj (checkpoint_dir a) ''wrong_index_final.pth'')"

definition subset_indices_path :: "args \<Rightarrow> string" where
  "subset_indices_path a =
     ospj (checkpoint_dir a) (''subset_indices_'' @ finetune_ratio a @ ''.npy'')"

text \<open>
  The weights as the specification describes them for a finetune run, against the wrong
  labels and the subset indices stored in the files: a wrong label of 1 gives the weight
  \<open>lambda_upweight\<close>, as a tensor of the dtype of the wrong labels stores it; and when
  that stored weight is not 0, the weight is 0 exactly outside the subset where the
  wrong label is not 1.
\<close>

definition finetune_weights :: "(real \<Rightarrow> real) \<Rightarrow> args \<Rightarrow> files \<Rightarrow> tensor \<Rightarrow> bool" where
  "finetune_weights rnd a fs upweight =
     (case (tensors fs (wrong_label_path a), arrays fs (subset_indices_path a)) of
        (Some wrong_label, Some indices) \<Rightarrow>
          numel upweight = numel wrong_label \<and>
          (\<forall>i < numel wrong_label.
             (tensor_values wrong_label ! i = 1 \<longrightarrow>
                tensor_values upweight ! i = stored rnd wrong_label (lambda_upweight a)) \<and>
             (stored rnd wrong_label (lambda_upweight a) \<noteq> 0 \<longrightarrow>
                (tensor_values upweight ! i = 0 \<longleftrightarrow>
                   i \<notin> set indices \<and> tensor_values wrong_label ! i \<noteq> 1)))
      | _ \<Rightarrow> False)"

text \<open>
  The arithmetic mean of the scores of sample \<open>i\<close> over the score files that
  \<open>lambda_list\<close> names.
\<close>

definition mean_score :: "args \<Rightarrow> files \<Rightarrow> nat \<Rightarrow> real" where
  "mean_score a fs i =
     (\<Sum>ld\<leftarrow>lambda_list a. tensor_values (the (tensors fs (score_file_name a ld))) ! i)
       / real (length (lambda_list a))"

section \<open>The training loops of SimCLRSolver and ERMSolver\<close>

text \<open>
  The arguments the loops read, on top of the ones above. \<open>save_every\<close> and
  \<open>log_every_n_steps\<close> are Python integers.
\<close>

record train_args = args +
  ERM_epochs :: nat
  save_every :: int
  log_every_n_steps :: int
  mode_CL :: string


text \<open>
  The effects of a run, in the order they happen. The forward and backward pass of a
  batch is one \<open>TrainStep\<close>; the values it computes are not modelled.
\<close>

datatype event =
    TrainStep nat
  | LogStep nat
  | SchedulerStep
  | LogEpoch nat
  | Validate string nat
  | SaveScoreIdx nat
  | Checkpoint nat string











text \<open>The events of a run that the claims speak about.\<close>

fun is_checkpoint :: "event \<Rightarrow> bool" where
  "is_checkpoint (Checkpoint _ _) = True"
| "is_checkpoint _ = False"



section \<open>training/ERMSolver.py: GeneralizedCELoss\<close>

text \<open>
  The loss is a composition of tensor operations of the framework, and its two checks
  ask whether a float is NaN. The float type \<open>'f\<close> and the operations are parameters:
  the row-wise softmax, the mean over all entries, \<open>np.isnan\<close>, the power, the product
  and the unreduced cross entropy of one row against its target class. What is modelled
  is the function itself: the order of its steps, the two checks, the indexing by the
  targets and the shapes.
\<close>

record 'f torch_kernel =
  k_softmax :: "'f list \<Rightarrow> 'f list"
  k_mean :: "'f list \<Rightarrow> 'f"
  k_isnan :: "'f \<Rightarrow> bool"
  k_pow :: "'f \<Rightarrow> 'f \<Rightarrow> 'f"
  k_mul :: "'f \<Rightarrow> 'f \<Rightarrow> 'f"
  k_cross_entropy :: "'f list \<Rightarrow> nat \<Rightarrow> 'f"

text \<open>
  \<open>torch.gather(p, 1, torch.unsqueeze(targets, 1))\<close>: one entry per target, taken from
  the row of the same position. The index tensor may have fewer rows than \<open>p\<close>, not
  more, and every index has to be a column of \<open>p\<close>.
\<close>

definition gather_targets :: "'f list list \<Rightarrow> int list \<Rightarrow> error + 'f list" where
  "gather_targets p targets =
     (if length targets \<le> length p
         \<and> (\<forall>(row, t) \<in> set (zip p targets). 0 \<le> t \<and> nat t < length row)
      then Inr (map (\<lambda>(row, t). row ! nat t) (zip p targets))
      else Inl RuntimeError)"

text \<open>
  \<open>F.cross_entropy(logits, targets, reduction='none')\<close> for class-index targets: the
  batch sizes have to agree. (The class range has been checked by the gather before.)
\<close>

definition cross_entropy_none ::
  "'f torch_kernel \<Rightarrow> 'f list list \<Rightarrow> int list \<Rightarrow> error + 'f list" where
  "cross_entropy_none K logits targets =
     (if length targets \<noteq> length logits
      then Inl (ValueError ''Expected input batch_size to match target batch_size'')
      else Inr (map (\<lambda>(row, t). k_cross_entropy K row (nat t)) (zip logits targets)))"

definition GeneralizedCELoss_forward ::
  "'f torch_kernel \<Rightarrow> 'f \<Rightarrow> 'f list list \<Rightarrow> int list \<Rightarrow> error + 'f list" where
  "GeneralizedCELoss_forward K q logits targets =
     (let p = map (k_softmax K) logits
      in if k_isnan K (k_mean K (concat p)) then Inl (NameError ''GCE_p'')
         else
           (case gather_targets p targets of
              Inl e \<Rightarrow> Inl e
            | Inr Yg \<Rightarrow>
                let loss_weight = map (\<lambda>y. k_mul K (k_pow K (detach y) q) q) Yg
                in if k_isnan K (k_mean K Yg) then Inl (NameError ''GCE_Yg'')
                   else
                     (case cross_entropy_none K logits targets of
                        Inl e \<Rightarrow> Inl e
                      | Inr ce \<Rightarrow> Inr (map (\<lambda>(c, w). k_mul K c w) (zip ce loss_weight)))))"

text \<open>
  Inputs of the expected shape: one target per row of logits, each target a class of its
  row, and a softmax that keeps the length of a row.
\<close>

definition well_shaped :: "'f torch_kernel \<Rightarrow> 'f list list \<Rightarrow> int list \<Rightarrow> bool" where
  "well_shaped K logits tgts =
     (length tgts = length logits
      \<and> (\<forall>row \<in> set logits. length (k_softmax K row) = length row)
      \<and> (\<forall>(row, t) \<in> set (zip logits tgts). 0 \<le> t \<and> nat t < length row))"

text \<open>
  A kernel to run the loss on: the reals with one more value for NaN (\<open>None\<close>). It has no
  rounding and no infinities, so it stands for the float operations only where their
  results are finite or NaN: a NaN operand gives NaN, the mean of no entries is NaN, and
  the power is the one of the reals on a positive base.
\<close>

definition ideal_softmax :: "real option list \<Rightarrow> real option list" where
  "ideal_softmax row =
     (if None \<in> set row then map (\<lambda>_. None) row
      else map (\<lambda>x. Some (exp (the x) / (\<Sum>y\<leftarrow>row. exp (the y)))) row)"

definition ideal_mean :: "real option list \<Rightarrow> real option" where
  "ideal_mean xs =
     (if xs = [] \<or> None \<in> set xs then None
      else Some ((\<Sum>x\<leftarrow>xs. the x) / real (length xs)))"

definition ideal_pow :: "real option \<Rightarrow> real option \<Rightarrow> real option" where
  "ideal_pow x y =
     (case (x, y) of
        (Some a, Some b) \<Rightarrow> if 0 < a then Some (a powr b) else None
      | _ \<Rightarrow> None)"

definition ideal_mul :: "real option \<Rightarrow> real option \<Rightarrow> real option" where
  "ideal_mul x y = (case (x, y) of (Some a, Some b) \<Rightarrow> Some (a * b) | _ \<Rightarrow> None)"

definition ideal_cross_entropy :: "real option list \<Rightarrow> nat \<Rightarrow> real option" where
  "ideal_cross_entropy row t =
     (case ideal_softmax row ! t of None \<Rightarrow> None | Some pr \<Rightarrow> Some (- ln pr))"

definition ideal_kernel :: "real option torch_kernel" where
  "ideal_kernel =
     \<lparr>k_softmax = ideal_softmax, k_mean = ideal_mean, k_isnan = (\<lambda>x. x = None),
      k_pow = ideal_pow, k_mul = ideal_mul, k_cross_entropy = ideal_cross_entropy\<rparr>"

section \<open>training/ERMSolver.py: save\_score\_idx\<close>


record score_tensors =
  score_idx :: "real list"
  wrong_idx :: "real list"
  debias_idx :: "real list"

record score_args = train_args +
  bias_ratio :: string


text \<open>
  The index that \<open>max(1)\<close> returns for a row: the position of its first maximal
  entry.
\<close>

fun argmax_from :: "nat \<Rightarrow> real \<Rightarrow> nat \<Rightarrow> real list \<Rightarrow> nat" where
  "argmax_from best_i best_v i [] = best_i"
| "argmax_from best_i best_v i (x # xs) =
     (if best_v < x then argmax_from i x (Suc i) xs
      else argmax_from best_i best_v (Suc i) xs)"

definition argmax :: "real list \<Rightarrow> nat" where
  "argmax row = (case row of [] \<Rightarrow> 0 | x # xs \<Rightarrow> argmax_from 0 x 1 xs)"

text \<open>
  The loop \<open>for i, v in enumerate(idx)\<close> over the entries of a batch: index, bias
  score, debiased flag and wrong flag.
\<close>

fun write_scores ::
  "(nat \<times> real \<times> real \<times> real) list \<Rightarrow> score_tensors \<Rightarrow> error + score_tensors" where
  "write_scores [] T = Inr T"
| "write_scores ((v, s, d, w) # rest) T =
     (if v < length (score_idx T)
      then write_scores rest
             (T\<lparr>score_idx := (score_idx T)[v := s],
                debias_idx := (debias_idx T)[v := d],
                wrong_idx := (wrong_idx T)[v := w]\<rparr>)
      else Inl IndexError)"






section \<open>data\_aug/celebA.py: BiasedCelebASplit\<close>

text \<open>
  What the constructor takes from outside: the attribute table of the CelebA split (or
  the exception the CelebA constructor raises), the permutation that \<open>torch.randperm\<close>
  draws, and the random draws of \<open>np.random.shuffle\<close>: \<open>random_interval i\<close> is the
  position drawn between 0 and \<open>i\<close>.
\<close>

record celeba_env =
  celeba_attr :: "string \<Rightarrow> error + int list list"
  randperm :: "nat \<Rightarrow> nat list"
  random_interval :: "nat \<Rightarrow> nat"

text \<open>The pickled index lists on disk and the directories that exist.\<close>

record celeba_files =
  pickles :: "string \<rightharpoonup> nat list"
  dirs :: "string set"

record BiasedCelebASplit =
  target_idx :: nat
  indices :: "nat list"
  attr :: "int list list"
  targets :: "int list"
  biases :: "int list"

text \<open>Indexing a tensor by a tensor of indices, \<open>xs[is]\<close>.\<close>

definition index_select :: "'a list \<Rightarrow> nat list \<Rightarrow> error + 'a list" where
  "index_select xs js =
     (if \<forall>j \<in> set js. j < length xs then Inr (map (\<lambda>j. xs ! j) js) else Inl IndexError)"

text \<open>A column of a table, \<open>attr[:, k]\<close>.\<close>

definition column :: "int list list \<Rightarrow> nat \<Rightarrow> error + int list" where
  "column rows k =
     (if \<forall>row \<in> set rows. k < length row then Inr (map (\<lambda>row. row ! k) rows)
      else Inl IndexError)"

text \<open>
  \<open>np.random.shuffle(selects)\<close> on a torch tensor. A tensor is no numpy array, so
  numpy runs its loop for general sequences,
  \<^verbatim>\<open>
  for i in reversed(range(1, n)):
      j = random_interval(i)
      x[i], x[j] = x[j], x[i]
  \<close>
  and on a tensor \<open>x[j]\<close> and \<open>x[i]\<close> are views of the storage of \<open>x\<close>, not copies:
  the first assignment writes the entry at \<open>j\<close> to position \<open>i\<close>, and the second one
  writes to position \<open>j\<close> what position \<open>i\<close> holds by then, which is the entry at
  \<open>j\<close> again. A step copies the entry at \<open>j\<close> to position \<open>i\<close> instead of swapping
  the two.
\<close>

fun shuffle_from :: "(nat \<Rightarrow> nat) \<Rightarrow> nat \<Rightarrow> 'a list \<Rightarrow> 'a list" where
  "shuffle_from draw 0 x = x"
| "shuffle_from draw (Suc k) x =
     (let i = Suc k;
          j = draw i mod Suc i;
          x = x[i := x ! j];
          x = x[j := x ! i]
      in shuffle_from draw k x)"

definition np_random_shuffle :: "(nat \<Rightarrow> nat) \<Rightarrow> 'a list \<Rightarrow> 'a list" where
  "np_random_shuffle draw x = shuffle_from draw (length x - 1) x"

definition build_blonde :: "celeba_env \<Rightarrow> int list list \<Rightarrow> nat \<Rightarrow> nat \<Rightarrow> error + nat list" where
  "build_blonde env cattr bias_idx tgt_idx =
     (case column cattr bias_idx of
        Inl e \<Rightarrow> Inl e
      | Inr bs \<Rightarrow>
          (case column cattr tgt_idx of
             Inl e \<Rightarrow> Inl e
           | Inr ts \<Rightarrow>
               let n = length cattr;
                   selects = filter (\<lambda>i. bs ! i = 0 \<and> ts ! i = 0) [0..<n];
                   non_selects = filter (\<lambda>i. \<not> (bs ! i = 0 \<and> ts ! i = 0)) [0..<n];
                   selects = np_random_shuffle (random_interval env) selects
               in Inr (take 2000 selects @ non_selects)))"

text \<open>
  \<open>int(0.8 * num_total)\<close>. The float product is taken as the exact product, which
  truncates to the same integer for every length a dataset can have.
\<close>

definition num_train :: "nat \<Rightarrow> nat" where
  "num_train num_total = (4 * num_total) div 5"

definition split_selection :: "string \<Rightarrow> nat list \<Rightarrow> nat list" where
  "split_selection split rand_indices =
     (if split = ''train'' then take (num_train (length rand_indices)) rand_indices
      else drop (num_train (length rand_indices)) rand_indices)"

definition rand_indices_path :: "string \<Rightarrow> string" where
  "rand_indices_path target_attr = ''clusters/celeba_rand_indices_'' @ target_attr @ ''.pkl''"

text \<open>
  The first part of the constructor: the target column, the attribute rows and the
  indices before the random split.
\<close>

definition select_target ::
  "celeba_env \<Rightarrow> string \<Rightarrow> string \<Rightarrow> string \<Rightarrow> int list list \<Rightarrow> celeba_files
     \<Rightarrow> (error + nat \<times> int list list \<times> nat list) \<times> celeba_files" where
  "select_target env root_dir split target_attr cattr fs =
     (if target_attr = ''blonde'' then
        (if split \<in> {''train'', ''valid''} then
           let save_path = ospj (ospj root_dir ''pickles'') ''blonde'';
               (r, fs') =
                 (if save_path \<in> dirs fs
                  then (case pickles fs (ospj save_path ''indices.pkl'') of
                          None \<Rightarrow> (Inl FileNotFoundError, fs)
                        | Some ind \<Rightarrow> (Inr ind, fs))
                  else (case build_blonde env cattr 20 9 of
                          Inl e \<Rightarrow> (Inl e, fs)
                        | Inr ind \<Rightarrow>
                            (Inr ind,
                             fs\<lparr>dirs := insert save_path (dirs fs),
                                pickles := (pickles fs)(ospj save_path ''indices.pkl'' \<mapsto> ind)\<rparr>)))
           in (case r of
                 Inl e \<Rightarrow> (Inl e, fs')
               | Inr ind \<Rightarrow>
                   (case index_select cattr ind of
                      Inl e \<Rightarrow> (Inl e, fs')
                    | Inr rows \<Rightarrow> (Inr (9, rows, ind), fs')))
         else (Inr (9, cattr, [0..<length cattr]), fs))
      else if target_attr = ''makeup'' then (Inr (18, cattr, [0..<length cattr]), fs)
      else (Inl AttributeError, fs))"

text \<open>The second part: the saved random permutation and the slice of the split.\<close>

definition random_split ::
  "celeba_env \<Rightarrow> string \<Rightarrow> string \<Rightarrow> int list list \<Rightarrow> nat list \<Rightarrow> celeba_files
     \<Rightarrow> (error + int list list \<times> nat list) \<times> celeba_files" where
  "random_split env split target_attr rows ind fs =
     (if split \<in> {''train'', ''valid''} then
        let save_path = rand_indices_path target_attr;
            (r, fs') =
              (case pickles fs save_path of
                 None \<Rightarrow>
                   if ''clusters'' \<in> dirs fs
                   then let rand_indices = randperm env (length ind)
                        in (Inr rand_indices, fs\<lparr>pickles := (pickles fs)(save_path \<mapsto> rand_indices)\<rparr>)
                   else (Inl FileNotFoundError, fs)
               | Some rand_indices \<Rightarrow> (Inr rand_indices, fs))
        in (case r of
              Inl e \<Rightarrow> (Inl e, fs')
            | Inr rand_indices \<Rightarrow>
                let sel = split_selection split rand_indices
                in (case index_select ind sel of
                      Inl e \<Rightarrow> (Inl e, fs')
                    | Inr ind' \<Rightarrow>
                        (case index_select rows sel of
                           Inl e \<Rightarrow> (Inl e, fs')
                         | Inr rows' \<Rightarrow> (Inr (rows', ind'), fs'))))
      else (Inr (rows, ind), fs))"

text \<open>
  The constructor. The confusion matrices it prints are derived from \<open>targets\<close> and
  \<open>biases\<close> and are left out.
\<close>

definition BiasedCelebASplit_init ::
  "celeba_env \<Rightarrow> string \<Rightarrow> string \<Rightarrow> string \<Rightarrow> celeba_files
     \<Rightarrow> (error + BiasedCelebASplit) \<times> celeba_files" where
  "BiasedCelebASplit_init env root_dir split target_attr fs =
     (case celeba_attr env (if split = ''valid'' then ''train'' else split) of
        Inl e \<Rightarrow> (Inl e, fs)
      | Inr cattr \<Rightarrow>
          (case select_target env root_dir split target_attr cattr fs of
             (Inl e, fs') \<Rightarrow> (Inl e, fs')
           | (Inr (tgt_idx, rows, ind), fs') \<Rightarrow>
               (case random_split env split target_attr rows ind fs' of
                  (Inl e, fs'') \<Rightarrow> (Inl e, fs'')
                | (Inr (rows', ind'), fs'') \<Rightarrow>
                    (case column rows' tgt_idx of
                       Inl e \<Rightarrow> (Inl e, fs'')
                     | Inr ts \<Rightarrow>
                         (case column rows' 20 of
                            Inl e \<Rightarrow> (Inl e, fs'')
                          | Inr bs \<Rightarrow>
                              (Inr \<lparr>target_idx = tgt_idx, indices = ind', attr = rows',
                                    targets = ts, biases = bs\<rparr>, fs''))))))"

section \<open>Properties of SimCLRResNet.forward\<close>

lemma forward_assert: "forward net x False False ss vr fz = Inl AssertionError"
  by (simp add: forward_def)

lemma forward_keys:
  assumes "p \<or> s"
  shows "\<exists>aux. forward net x p s ss vr fz = Inr aux \<and> dom aux = requested_keys p s ss vr"
  using assms by (auto simp: forward_def requested_keys_def Let_def)

text \<open>
  Claim C9. A call of \<open>SimCLRResNet.forward\<close> with \<open>penultimate\<close> and \<open>simclr\<close> both
  false fails the assertion. A call with one of them true returns a dictionary whose
  keys are exactly the requested ones: \<open>penultimate\<close>, \<open>simclr\<close>, the pair
  \<open>simsiam_prj\<close> and \<open>simsiam_pred\<close>, and \<open>vicReg\<close>, each present if and only if its
  flag is set.
\<close>

theorem C9_forward_keys:
  "forward net x False False ss vr fz = Inl AssertionError \<and>
   (p \<or> s \<longrightarrow>
      (\<exists>aux. forward net x p s ss vr fz = Inr aux \<and>
         dom aux = {k. (k = ''penultimate'' \<and> p) \<or> (k = ''simclr'' \<and> s)
                      \<or> ((k = ''simsiam_prj'' \<or> k = ''simsiam_pred'') \<and> ss)
                      \<or> (k = ''vicReg'' \<and> vr)}))"
proof -
  have "requested_keys p s ss vr =
          {k. (k = ''penultimate'' \<and> p) \<or> (k = ''simclr'' \<and> s)
              \<or> ((k = ''simsiam_prj'' \<or> k = ''simsiam_pred'') \<and> ss)
              \<or> (k = ''vicReg'' \<and> vr)}"
    by (auto simp: requested_keys_def)
  with forward_assert forward_keys show ?thesis
    by metis
qed

theorem C9_forward_keys_witness:
  "forward \<lparr>penultimate_layers = Suc, simclr_layer = Suc, simsiam_prj_layer = Suc,
            simsiam_pred_layer = Suc, vicReg_layer = Suc\<rparr> (0::nat) False False True False False
     = Inl AssertionError \<and>
   (\<exists>aux. forward \<lparr>penultimate_layers = Suc, simclr_layer = Suc, simsiam_prj_layer = Suc,
            simsiam_pred_layer = Suc, vicReg_layer = Suc\<rparr> (0::nat) True False True False False
          = Inr aux \<and>
      dom aux = {k. (k = ''penultimate'' \<and> True) \<or> (k = ''simclr'' \<and> False)
                      \<or> ((k = ''simsiam_prj'' \<or> k = ''simsiam_pred'') \<and> True)
                      \<or> (k = ''vicReg'' \<and> False)})"
  using C9_forward_keys [where net = "\<lparr>penultimate_layers = Suc, simclr_layer = Suc,
      simsiam_prj_layer = Suc, simsiam_pred_layer = Suc, vicReg_layer = Suc\<rparr>"
      and x = "0::nat" and ss = True and vr = False and fz = False and p = True and s = False]
  by simp

section \<open>Properties of the sampling weights and of the pseudo label\<close>

lemma set_zero_values: "tensor_values (set_zero t j) = (tensor_values t)[j := 0]"
  by (cases t) (simp_all add: map_update)

lemma set_zero_stored: "stored rnd (set_zero t j) v = stored rnd t v"
  by (cases t) simp_all

lemma ones_like_values: "tensor_values (ones_like t) = map (\<lambda>_. 1) (tensor_values t)"
  by (cases t) (simp_all add: comp_def)

lemma ones_like_stored: "stored rnd (ones_like t) v = stored rnd t v"
  by (cases t) simp_all

lemma zero_outside_stored: "stored rnd (zero_outside ind js up) v = stored rnd up v"
  by (induction js arbitrary: up) (simp_all add: set_zero_stored)

lemma zero_outside_length:
  "length (tensor_values (zero_outside ind js up)) = length (tensor_values up)"
  by (induction js arbitrary: up) (simp_all add: set_zero_values)

lemma zero_outside_nth:
  "i < length (tensor_values up) \<Longrightarrow>
   tensor_values (zero_outside ind js up) ! i =
     (if i \<in> set js \<and> i \<notin> set ind then 0 else tensor_values up ! i)"
proof (induction js arbitrary: up)
  case Nil
  then show ?case by simp
next
  case (Cons j js)
  then show ?case
    by (cases "i = j") (auto simp: set_zero_values nth_list_update)
qed

lemma assign_where_length:
  "length msk = length (tensor_values up) \<Longrightarrow>
   length (tensor_values (assign_where rnd up msk v)) = length (tensor_values up)"
  by (cases up) simp_all

lemma assign_where_nth:
  "length msk = length (tensor_values up) \<Longrightarrow> i < length (tensor_values up) \<Longrightarrow>
   tensor_values (assign_where rnd up msk v) ! i =
     (if msk ! i then stored rnd up v else tensor_values up ! i)"
  by (cases up) simp_all

lemma numel_make_upweight: "numel (make_upweight rnd ft ind wrong v) = numel wrong"
  by (simp add: make_upweight_def numel_def Let_def equals_one_def assign_where_length
      zero_outside_length ones_like_values)

lemma make_upweight_nth:
  assumes "i < numel wrong"
  shows "tensor_values (make_upweight rnd ft ind wrong v) ! i =
           (if tensor_values wrong ! i = 1 then stored rnd wrong v
            else if ft \<and> i \<notin> set ind then 0 else 1)"
  using assms
  by (simp add: make_upweight_def numel_def Let_def equals_one_def assign_where_nth
      zero_outside_length zero_outside_nth zero_outside_stored ones_like_values
      ones_like_stored)

lemma load_upweight_finetune:
  assumes "finetune a"
    and "load_upweight rnd a fs (wrong_label_path a) = Inr up"
  shows "finetune_weights rnd a fs up"
proof -
  from assms(2) obtain wrong where w: "tensors fs (wrong_label_path a) = Some wrong"
    by (auto simp: load_upweight_def torch_load_def split: option.splits)
  from assms w obtain subset where
    ind: "arrays fs (subset_indices_path a) = Some subset"
    and up: "up = make_upweight rnd True subset wrong (lambda_upweight a)"
    by (auto simp: load_upweight_def torch_load_def np_load_def subset_indices_path_def
        split: option.splits)
  show ?thesis
    by (simp add: finetune_weights_def w ind up numel_make_upweight make_upweight_nth)
qed

lemma train_with_oversampling_weight:
  assumes "train_with_oversampling rnd a fs = (Inr call, fs')"
  shows "load_upweight rnd a fs' (wrong_label_path a) = Inr (sampling_weight call)"
  using assms
  by (auto simp: train_with_oversampling_def wrong_label_path_def Let_def
      split: option.splits if_splits sum.splits prod.splits)

lemma ERMSolver_init_weight:
  assumes "ERMSolver_init_sampling_weight rnd a fs = Inr (Some up)"
  shows "load_upweight rnd a fs (wrong_label_path a) = Inr up"
  using assms
  by (auto simp: ERMSolver_init_sampling_weight_def wrong_label_path_def
      split: option.splits if_splits sum.splits)

text \<open>
  Claim C10, as amended. In a finetune run of \<open>train_with_oversampling\<close>, and in the
  matching branch of \<open>ERMSolver.__init__\<close>, a sample whose wrong label is 1 gets the
  sampling weight \<open>lambda_upweight\<close> whether or not its index is in the loaded subset,
  because the assignment follows the zeroing. The weight is \<open>lambda_upweight\<close> as a
  tensor of the dtype of the wrong labels stores it: rounded to float32, or cut to an
  integer when the label file holds an int64 tensor. When that stored weight is not 0,
  the weight 0 is given exactly to the samples outside the subset whose wrong label is
  not 1. (When it is 0, the samples with wrong label 1 get the weight 0 as well.)
\<close>

theorem C10_finetune_weights:
  assumes "finetune a"
  shows "(train_with_oversampling rnd a fs = (Inr call, fs')
            \<longrightarrow> finetune_weights rnd a fs' (sampling_weight call)) \<and>
         (ERMSolver_init_sampling_weight rnd a fs = Inr (Some up)
            \<longrightarrow> finetune_weights rnd a fs up)"
  using assms load_upweight_finetune train_with_oversampling_weight ERMSolver_init_weight
  by blast

theorem C10_finetune_weights_witness:
  "finetune_weights (\<lambda>x. x)
     \<lparr>data = ''celebA'', checkpoint_dir = ''ckpt'', lambda_list = [0], cutoff = 1/2,
      score_file_template = (\<lambda>_. ''s''), oversample_pth = Some ''w.pth'', finetune = True,
      finetune_ratio = ''0.1'', lambda_upweight = 5/2, simclr_epochs = 1\<rparr>
     \<lparr>tensors = [''w.pth'' \<mapsto> LongTensor [1, 0, 0]],
      arrays = [''ckpt/subset_indices_0.1.npy'' \<mapsto> [1]],
      checkpoints = {(1, ''biased_simclr'')}\<rparr>
     (LongTensor [2, 1, 0])"
proof -
  let ?a = "\<lparr>data = ''celebA'', checkpoint_dir = ''ckpt'', lambda_list = [0], cutoff = 1/2,
      score_file_template = (\<lambda>_. ''s''), oversample_pth = Some ''w.pth'', finetune = True,
      finetune_ratio = ''0.1'', lambda_upweight = 5/2, simclr_epochs = 1\<rparr>"
  let ?fs = "\<lparr>tensors = [''w.pth'' \<mapsto> LongTensor [1, 0, 0]],
      arrays = [''ckpt/subset_indices_0.1.npy'' \<mapsto> [1]],
      checkpoints = {(1, ''biased_simclr'')}\<rparr>"
  let ?call = "\<lparr>sampling_weight = LongTensor [2, 1, 0], token = ''debiased_finetune'',
      with_finetune = True\<rparr>"
  have "\<lfloor>5 / 2 :: real\<rfloor> = 2"
    by linarith
  then have run: "train_with_oversampling (\<lambda>x. x) ?a ?fs = (Inr ?call, ?fs)"
    by (simp add: train_with_oversampling_def path_exists_def load_checkpoint_def
        load_upweight_def torch_load_def np_load_def ospj_def make_upweight_def
        equals_one_def numel_def float_to_int64_def upt_rec)
  have "finetune ?a"
    by simp
  from C10_finetune_weights [OF this, of "\<lambda>x. x" ?fs ?call ?fs] run show ?thesis
    by simp
qed

theorem C10_counterexample:
  "fst (train_with_oversampling (\<lambda>x. x)
     \<lparr>data = ''celebA'', checkpoint_dir = ''ckpt'', lambda_list = [0], cutoff = 1/2,
      score_file_template = (\<lambda>_. ''s''), oversample_pth = Some ''w.pth'', finetune = True,
      finetune_ratio = ''0.1'', lambda_upweight = 0, simclr_epochs = 1\<rparr>
     \<lparr>tensors = [''w.pth'' \<mapsto> FloatTensor [1]],
      arrays = [''ckpt/subset_indices_0.1.npy'' \<mapsto> [0]],
      checkpoints = {(1, ''biased_simclr'')}\<rparr>)
   = Inr \<lparr>sampling_weight = FloatTensor [0], token = ''debiased_finetune'',
          with_finetune = True\<rparr>
   \<and> (0::nat) \<in> set [0] \<and> [1::real] ! 0 = 1"
  by (simp add: train_with_oversampling_def path_exists_def load_checkpoint_def
        load_upweight_def torch_load_def np_load_def ospj_def make_upweight_def
        equals_one_def numel_def)

text \<open>
  Claim C2, at an input where the code breaks it. With \<open>lambda_list = [1]\<close>, the cutoff
  \<open>1.5\<close> and the score 1 for the one sample in the file of lambda 0 and in the file of
  lambda 1, \<open>make_pseudo_label\<close> adds the two files and divides by the length of the
  list, 1: the score is 2 and the saved pseudo label is 1. The mean over the files that
  the list names is 1, which is not above the cutoff. The three numbers that occur are
  float32 numbers, which the rounding leaves as they are.
\<close>

theorem C2_divisor_is_list_length:
  assumes "rnd 1 = 1" and "rnd 2 = 2" and "rnd (3/2) = 3/2"
  shows "tensors (snd (make_pseudo_label rnd
      \<lparr>data = ''imagenet'', checkpoint_dir = ''ckpt'', lambda_list = [1], cutoff = 3/2,
       score_file_template = (\<lambda>ld. if ld = 0 then ''s0'' else ''s1''),
       oversample_pth = None, finetune = False,
       finetune_ratio = ''0.1'', lambda_upweight = 5, simclr_epochs = 1\<rparr>
      \<lparr>tensors = [''s0/score_idx.pth'' \<mapsto> FloatTensor [1],
                  ''s1/score_idx.pth'' \<mapsto> FloatTensor [1]],
       arrays = Map.empty, checkpoints = {}\<rparr>))
     ''ckpt/wrong_index_final.pth''
    = Some (FloatTensor [1])
   \<and> \<not> 3/2 < mean_score
      \<lparr>data = ''imagenet'', checkpoint_dir = ''ckpt'', lambda_list = [1], cutoff = 3/2,
       score_file_template = (\<lambda>ld. if ld = 0 then ''s0'' else ''s1''),
       oversample_pth = None, finetune = False,
       finetune_ratio = ''0.1'', lambda_upweight = 5, simclr_epochs = 1\<rparr>
      \<lparr>tensors = [''s0/score_idx.pth'' \<mapsto> FloatTensor [1],
                  ''s1/score_idx.pth'' \<mapsto> FloatTensor [1]],
       arrays = Map.empty, checkpoints = {}\<rparr> 0"
  using assms
  by (simp add: make_pseudo_label_def torch_save_def compute_pseudo_label_def torch_load_def
      score_file_name_def ospj_def iadd_def inplace_zip_def above_cutoff_def mean_score_def)

theorem C2_divisor_is_list_length_witness:
  "tensors (snd (make_pseudo_label (\<lambda>x. x)
      \<lparr>data = ''imagenet'', checkpoint_dir = ''ckpt'', lambda_list = [1], cutoff = 3/2,
       score_file_template = (\<lambda>ld. if ld = 0 then ''s0'' else ''s1''),
       oversample_pth = None, finetune = False,
       finetune_ratio = ''0.1'', lambda_upweight = 5, simclr_epochs = 1\<rparr>
      \<lparr>tensors = [''s0/score_idx.pth'' \<mapsto> FloatTensor [1],
                  ''s1/score_idx.pth'' \<mapsto> FloatTensor [1]],
       arrays = Map.empty, checkpoints = {}\<rparr>))
     ''ckpt/wrong_index_final.pth''
    = Some (FloatTensor [1])"
  using C2_divisor_is_list_length [of "\<lambda>x. x"]
  by simp

section \<open>Properties of BiasedCelebASplit\<close>


lemma select_target_split:
  "select_target env rd ''train'' ta cattr fs = select_target env rd ''valid'' ta cattr fs"
  by (simp add: select_target_def)

lemma take_drop_partition:
  assumes "distinct xs"
  shows "set (take k xs) \<inter> set (drop k xs) = {}" and "set (take k xs) \<union> set (drop k xs) = set xs"
  using assms set_take_disj_set_drop_if_distinct[of xs k k] apply simp
  by (metis append_take_drop_id set_append)

lemma random_split_saved:
  assumes "pickles fs (rand_indices_path ta) = Some perm"
    and "split \<in> {''train'', ''valid''}"
    and "random_split env split ta rows base fs = (Inr (rows', ind'), fs')"
  shows "ind' = map (\<lambda>j. base ! j) (split_selection split perm)
         \<and> (\<forall>j \<in> set (split_selection split perm). j < length base)
         \<and> fs' = fs"
  using assms
  by (auto simp: random_split_def index_select_def Let_def split: if_splits sum.splits)


lemma indices_pkl_not_rand:
  "ospj p ''indices.pkl'' \<noteq> rand_indices_path ''blonde''"
proof
  assume "ospj p ''indices.pkl'' = rand_indices_path ''blonde''"
  then have "take 5 (rev (ospj p ''indices.pkl'')) = take 5 (rev (rand_indices_path ''blonde''))"
    by simp
  then show False
    by (simp add: ospj_def rand_indices_path_def split: if_splits)
qed

lemma select_target_keeps:
  assumes "select_target env rd split ta cattr fs = (r, fs')"
  shows "pickles fs' (rand_indices_path ta) = pickles fs (rand_indices_path ta)"
  using assms indices_pkl_not_rand [of "ospj (ospj rd ''pickles'') ''blonde''"]
  by (auto simp: select_target_def Let_def split: if_splits sum.splits option.splits)

lemma init_indices:
  assumes saved: "pickles fs (rand_indices_path ta) = Some perm"
    and sp: "split \<in> {''train'', ''valid''}"
    and init: "BiasedCelebASplit_init env rd split ta fs = (Inr d, fs1)"
  shows "\<exists>cattr t rows base fs'.
           celeba_attr env ''train'' = Inr cattr \<and>
           select_target env rd split ta cattr fs = (Inr (t, rows, base), fs') \<and>
           indices d = map (\<lambda>j. base ! j) (split_selection split perm) \<and>
           (\<forall>j \<in> set (split_selection split perm). j < length base)"
proof -
  from sp have tr: "(if split = ''valid'' then ''train'' else split) = ''train''"
    by auto
  from init obtain cattr where c: "celeba_attr env ''train'' = Inr cattr"
    unfolding BiasedCelebASplit_init_def tr by (auto split: sum.splits)
  from init c obtain t rows base fs' where
    st: "select_target env rd split ta cattr fs = (Inr (t, rows, base), fs')"
    unfolding BiasedCelebASplit_init_def tr by (auto split: sum.splits prod.splits)
  from init c st obtain rows' ind' fs'' where
    rs: "random_split env split ta rows base fs' = (Inr (rows', ind'), fs'')"
    and d: "indices d = ind'"
    unfolding BiasedCelebASplit_init_def tr by (auto split: sum.splits prod.splits)
  have "pickles fs' (rand_indices_path ta) = Some perm"
    using select_target_keeps [OF st] saved by simp
  from random_split_saved [OF this sp rs] d c st show ?thesis
    by blast
qed


text \<open>
  Where the precomputed indices have no duplicates (as for \<open>makeup\<close>, where they are
  \<open>0, ..., n - 1\<close>), the two splits of a saved permutation partition them: \<open>train\<close>
  takes the first \<open>int(0.8 * n)\<close> entries of the permutation and \<open>valid\<close> the rest.
\<close>

lemma splits_of_saved_permutation:
  assumes "pickles fs (rand_indices_path ta) = Some perm"
    and "distinct perm"
    and "BiasedCelebASplit_init env rd ''train'' ta fs = (Inr dtrain, fs1)"
    and "BiasedCelebASplit_init env rd ''valid'' ta fs = (Inr dvalid, fs2)"
  shows "\<exists>cattr t rows base fs'.
           celeba_attr env ''train'' = Inr cattr \<and>
           select_target env rd ''train'' ta cattr fs = (Inr (t, rows, base), fs') \<and>
           indices dtrain = map (\<lambda>j. base ! j) (take (num_train (length perm)) perm) \<and>
           indices dvalid = map (\<lambda>j. base ! j) (drop (num_train (length perm)) perm) \<and>
           set (take (num_train (length perm)) perm) \<inter> set (drop (num_train (length perm)) perm) = {} \<and>
           set (take (num_train (length perm)) perm) \<union> set (drop (num_train (length perm)) perm) = set perm \<and>
           (distinct base \<longrightarrow>
              set (indices dtrain) \<inter> set (indices dvalid) = {} \<and>
              set (indices dtrain) \<union> set (indices dvalid) = (\<lambda>j. base ! j) ` set perm)"
proof -
  let ?k = "num_train (length perm)"
  from init_indices [OF assms(1) _ assms(3)] obtain cattr t rows base fs' where
    tr: "celeba_attr env ''train'' = Inr cattr"
      "select_target env rd ''train'' ta cattr fs = (Inr (t, rows, base), fs')"
      "indices dtrain = map (\<lambda>j. base ! j) (split_selection ''train'' perm)"
      "\<forall>j \<in> set (split_selection ''train'' perm). j < length base"
    by auto
  from init_indices [OF assms(1) _ assms(4)] obtain cattr' t' rows' base' fs'' where
    va: "celeba_attr env ''train'' = Inr cattr'"
      "select_target env rd ''valid'' ta cattr' fs = (Inr (t', rows', base'), fs'')"
      "indices dvalid = map (\<lambda>j. base' ! j) (split_selection ''valid'' perm)"
      "\<forall>j \<in> set (split_selection ''valid'' perm). j < length base'"
    by auto
  have same: "base' = base"
    using tr(1,2) va(1,2) select_target_split [of env rd ta cattr fs] by simp
  have itr: "indices dtrain = map (\<lambda>j. base ! j) (take ?k perm)"
    using tr(3) by (simp add: split_selection_def)
  have iva: "indices dvalid = map (\<lambda>j. base ! j) (drop ?k perm)"
    using va(3) same by (simp add: split_selection_def)
  have bound: "\<forall>j \<in> set perm. j < length base"
    using tr(4) va(4) same take_drop_partition(2) [OF assms(2), of ?k]
    by (auto simp: split_selection_def)
  have part: "set (take ?k perm) \<inter> set (drop ?k perm) = {}"
    "set (take ?k perm) \<union> set (drop ?k perm) = set perm"
    using take_drop_partition [OF assms(2)] by auto
  have fin: "set (indices dtrain) \<inter> set (indices dvalid) = {} \<and>
             set (indices dtrain) \<union> set (indices dvalid) = (\<lambda>j. base ! j) ` set perm"
    if db: "distinct base"
  proof -
    have inj: "inj_on (\<lambda>j. base ! j) (set perm)"
      using db bound by (auto simp: inj_on_def nth_eq_iff_index_eq)
    have "(\<lambda>j. base ! j) ` set (take ?k perm) \<inter> (\<lambda>j. base ! j) ` set (drop ?k perm) = {}"
      using inj part
      by (metis Un_upper1 Un_upper2 image_empty inj_on_image_Int)
    moreover have "(\<lambda>j. base ! j) ` set (take ?k perm) \<union> (\<lambda>j. base ! j) ` set (drop ?k perm)
                     = (\<lambda>j. base ! j) ` set perm"
      using part(2) by (metis image_Un)
    ultimately show ?thesis
      by (simp add: itr iva)
  qed
  from tr(1,2) itr iva part fin show ?thesis
    by blast
qed

text \<open>
  Claim C8, at an input where the code breaks it. For \<open>blonde\<close> the precomputed
  indices come from \<open>build_blonde\<close>, which shuffles a torch tensor with
  \<open>np.random.shuffle\<close>; the shuffle overwrites entries by copies of others and leaves
  duplicates. With three images that all qualify, draws that select position 0 and the
  saved permutation \<open>0, 1, 2\<close>: the precomputed indices are \<open>0, 0, 0\<close>, the split
  \<open>train\<close> gets the dataset indices \<open>0, 0\<close> and the split \<open>valid\<close> gets \<open>0\<close>. The two
  splits share an image, and the images 1 and 2 are in neither.
\<close>

theorem C8_blonde_splits_overlap:
  "fst (BiasedCelebASplit_init
         \<lparr>celeba_attr = (\<lambda>s. Inr [replicate 21 0, replicate 21 0, replicate 21 0]),
          randperm = (\<lambda>n. [0..<n]), random_interval = (\<lambda>i. 0)\<rparr>
         ''r'' ''train'' ''blonde''
         \<lparr>pickles = [''clusters/celeba_rand_indices_blonde.pkl'' \<mapsto> [0, 1, 2]], dirs = {}\<rparr>)
     = Inr \<lparr>target_idx = 9, indices = [0, 0], attr = [replicate 21 0, replicate 21 0],
            targets = [0, 0], biases = [0, 0]\<rparr> \<and>
   pickles (snd (BiasedCelebASplit_init
         \<lparr>celeba_attr = (\<lambda>s. Inr [replicate 21 0, replicate 21 0, replicate 21 0]),
          randperm = (\<lambda>n. [0..<n]), random_interval = (\<lambda>i. 0)\<rparr>
         ''r'' ''train'' ''blonde''
         \<lparr>pickles = [''clusters/celeba_rand_indices_blonde.pkl'' \<mapsto> [0, 1, 2]], dirs = {}\<rparr>))
       ''r/pickles/blonde/indices.pkl'' = Some [0, 0, 0] \<and>
   fst (BiasedCelebASplit_init
         \<lparr>celeba_attr = (\<lambda>s. Inr [replicate 21 0, replicate 21 0, replicate 21 0]),
          randperm = (\<lambda>n. [0..<n]), random_interval = (\<lambda>i. 0)\<rparr>
         ''r'' ''valid'' ''blonde''
         (snd (BiasedCelebASplit_init
           \<lparr>celeba_attr = (\<lambda>s. Inr [replicate 21 0, replicate 21 0, replicate 21 0]),
            randperm = (\<lambda>n. [0..<n]), random_interval = (\<lambda>i. 0)\<rparr>
           ''r'' ''train'' ''blonde''
           \<lparr>pickles = [''clusters/celeba_rand_indices_blonde.pkl'' \<mapsto> [0, 1, 2]],
            dirs = {}\<rparr>)))
     = Inr \<lparr>target_idx = 9, indices = [0], attr = [replicate 21 0],
            targets = [0], biases = [0]\<rparr>"
proof -
  let ?env = "\<lparr>celeba_attr = (\<lambda>s. Inr [replicate 21 0, replicate 21 0, replicate 21 0]),
          randperm = (\<lambda>n. [0..<n]), random_interval = (\<lambda>i. 0)\<rparr>"
  let ?fs = "\<lparr>pickles = [''clusters/celeba_rand_indices_blonde.pkl'' \<mapsto> [0, 1, 2]],
              dirs = {}\<rparr>"
  let ?fs1 = "\<lparr>pickles = [''clusters/celeba_rand_indices_blonde.pkl'' \<mapsto> [0, 1, 2],
                          ''r/pickles/blonde/indices.pkl'' \<mapsto> [0, 0, 0]],
               dirs = {''r/pickles/blonde''}\<rparr>"
  have sh: "np_random_shuffle (\<lambda>i. 0) [0, Suc 0, Suc (Suc 0)] = [0, 0, 0 :: nat]"
    by (simp add: np_random_shuffle_def Let_def)
  have u: "[0..<length [replicate 21 (0::int), replicate 21 0, replicate 21 0]] = [0, 1, 2]"
    by (simp add: upt_rec)
  have bb: "build_blonde ?env [replicate 21 0, replicate 21 0, replicate 21 0] 20 9
              = Inr [0, 0, 0]"
    unfolding build_blonde_def by (simp add: column_def u sh)
  have tr: "BiasedCelebASplit_init ?env ''r'' ''train'' ''blonde'' ?fs
              = (Inr \<lparr>target_idx = 9, indices = [0, 0], attr = [replicate 21 0, replicate 21 0],
                      targets = [0, 0], biases = [0, 0]\<rparr>, ?fs1)"
    by (simp add: BiasedCelebASplit_init_def select_target_def random_split_def bb
        rand_indices_path_def split_selection_def num_train_def index_select_def column_def
        ospj_def)
  have va: "BiasedCelebASplit_init ?env ''r'' ''valid'' ''blonde'' ?fs1
              = (Inr \<lparr>target_idx = 9, indices = [0], attr = [replicate 21 0],
                      targets = [0], biases = [0]\<rparr>, ?fs1)"
    by (simp add: BiasedCelebASplit_init_def select_target_def random_split_def
        rand_indices_path_def split_selection_def num_train_def index_select_def column_def
        ospj_def)
  have "snd (BiasedCelebASplit_init ?env ''r'' ''train'' ''blonde'' ?fs) = ?fs1"
    by (simp only: tr snd_conv)
  then show ?thesis
    by (simp only: tr va fst_conv files.simps celeba_files.simps) simp
qed

section \<open>Properties of the training loops\<close>








section \<open>Properties of the generalized cross-entropy loss\<close>

lemma gather_well_shaped:
  assumes "well_shaped K logits tgts"
  shows "gather_targets (map (k_softmax K) logits) tgts =
           Inr (map (\<lambda>(row, t). k_softmax K row ! nat t) (zip logits tgts))"
proof -
  have len: "length tgts \<le> length (map (k_softmax K) logits)"
    using assms by (simp add: well_shaped_def)
  have z: "zip (map (k_softmax K) logits) tgts = map (\<lambda>(row, t). (k_softmax K row, t)) (zip logits tgts)"
    by (simp add: zip_map1)
  have "\<forall>(row, t) \<in> set (zip (map (k_softmax K) logits) tgts). 0 \<le> t \<and> nat t < length row"
  proof -
    have "0 \<le> t \<and> nat t < length (k_softmax K row)" if "(row, t) \<in> set (zip logits tgts)" for row t
    proof -
      from that have "row \<in> set logits" by (rule set_zip_leftD)
      with assms have "length (k_softmax K row) = length row"
        by (simp add: well_shaped_def)
      moreover from that assms have "0 \<le> t \<and> nat t < length row"
        by (auto simp: well_shaped_def)
      ultimately show ?thesis by simp
    qed
    then show ?thesis unfolding z by auto
  qed
  with len show ?thesis
    unfolding gather_targets_def z by (simp add: case_prod_unfold comp_def)
qed

text \<open>
  Claim C4, as amended. On logits and targets of the expected shape (one target for every
  row of logits, each target a class of its row), \<open>GeneralizedCELoss.forward\<close>
  raises if and only if the mean of the softmax probabilities is NaN or the mean of the
  probabilities gathered at the targets is NaN. Otherwise it returns, for every sample,
  the unreduced cross entropy of its logits against its target, multiplied by the weight:
  \<open>q\<close> times the (detached) probability of the target class to the power \<open>q\<close>.
\<close>

theorem C4_forward_raises_iff_nan:
  assumes "well_shaped K logits tgts"
  shows "((\<exists>e. GeneralizedCELoss_forward K q logits tgts = Inl e) \<longleftrightarrow>
            k_isnan K (k_mean K (concat (map (k_softmax K) logits))) \<or>
            k_isnan K (k_mean K (map (\<lambda>(row, t). k_softmax K row ! nat t) (zip logits tgts)))) \<and>
         (\<not> k_isnan K (k_mean K (concat (map (k_softmax K) logits))) \<and>
          \<not> k_isnan K (k_mean K (map (\<lambda>(row, t). k_softmax K row ! nat t) (zip logits tgts)))
          \<longrightarrow> GeneralizedCELoss_forward K q logits tgts =
                Inr (map (\<lambda>(row, t). k_mul K (k_cross_entropy K row (nat t))
                                       (k_mul K (k_pow K (k_softmax K row ! nat t) q) q))
                       (zip logits tgts)))"
proof -
  have len: "length tgts = length logits"
    using assms by (simp add: well_shaped_def)
  have ce: "cross_entropy_none K logits tgts =
              Inr (map (\<lambda>(row, t). k_cross_entropy K row (nat t)) (zip logits tgts))"
    using len by (simp add: cross_entropy_none_def)
  have comb: "map (\<lambda>(c, w). k_mul K c w)
                (zip (map (\<lambda>(row, t). k_cross_entropy K row (nat t)) (zip logits tgts))
                     (map (\<lambda>y. k_mul K (k_pow K (detach y) q) q)
                        (map (\<lambda>(row, t). k_softmax K row ! nat t) (zip logits tgts))))
              = map (\<lambda>(row, t). k_mul K (k_cross_entropy K row (nat t))
                                       (k_mul K (k_pow K (k_softmax K row ! nat t) q) q))
                  (zip logits tgts)"
    by (simp add: zip_map_map detach_def case_prod_unfold comp_def zip_same_conv_map)
  show ?thesis
    using comb
    by (simp add: GeneralizedCELoss_forward_def Let_def gather_well_shaped [OF assms] ce)
qed


theorem C4_forward_raises_iff_nan_witness:
  "GeneralizedCELoss_forward ideal_kernel (Some (7/10)) [[Some 0, Some 0]] [0]
     = Inr [Some (- ln (1/2) * ((1/2) powr (7/10) * (7/10)))] \<and>
   (\<exists>e. GeneralizedCELoss_forward ideal_kernel (Some (7/10)) [[None, Some 0]] [0] = Inl e)"
proof -
  have ws1: "well_shaped ideal_kernel [[Some 0, Some 0]] [0]"
    by (simp add: well_shaped_def ideal_kernel_def ideal_softmax_def)
  have ws2: "well_shaped ideal_kernel [[None, Some 0]] [0]"
    by (simp add: well_shaped_def ideal_kernel_def ideal_softmax_def)
  have a: "GeneralizedCELoss_forward ideal_kernel (Some (7/10)) [[Some 0, Some 0]] [0]
             = Inr [Some (- ln (1/2) * ((1/2) powr (7/10) * (7/10)))]"
    using C4_forward_raises_iff_nan [OF ws1, of "Some (7/10)"]
    by (simp add: ideal_kernel_def ideal_softmax_def ideal_mean_def ideal_pow_def ideal_mul_def
        ideal_cross_entropy_def)
  have b: "\<exists>e. GeneralizedCELoss_forward ideal_kernel (Some (7/10)) [[None, Some 0]] [0] = Inl e"
    using C4_forward_raises_iff_nan [OF ws2, of "Some (7/10)"]
    by (simp add: ideal_kernel_def ideal_softmax_def ideal_mean_def)
  from a b show ?thesis ..
qed

theorem C4_counterexample:
  "GeneralizedCELoss_forward ideal_kernel (Some (7/10)) [[Some 0, Some 0]] [5]
     = Inl RuntimeError \<and>
   \<not> k_isnan ideal_kernel
       (k_mean ideal_kernel (concat (map (k_softmax ideal_kernel) [[Some 0, Some 0]]))) \<and>
   GeneralizedCELoss_forward ideal_kernel (Some (7/10)) [[Some 0, Some 0], [Some 0, Some 0]] [0]
     = Inl (ValueError ''Expected input batch_size to match target batch_size'') \<and>
   \<not> k_isnan ideal_kernel
       (k_mean ideal_kernel
          (concat (map (k_softmax ideal_kernel) [[Some 0, Some 0], [Some 0, Some 0]]))) \<and>
   gather_targets (map (k_softmax ideal_kernel) [[Some 0, Some 0], [Some 0, Some 0]]) [0]
     = Inr [Some (1/2)] \<and>
   \<not> k_isnan ideal_kernel (k_mean ideal_kernel [Some (1/2)])"
  by (simp add: GeneralizedCELoss_forward_def gather_targets_def cross_entropy_none_def
      ideal_kernel_def ideal_softmax_def ideal_mean_def)

section \<open>The explicit raises of the program\<close>

lemma add_scores_no_ValueError: "add_scores rnd a fs lds score \<noteq> Inl (ValueError m)"
  by (induction lds arbitrary: score)
     (auto simp: torch_load_def iadd_def inplace_zip_def
        split: option.splits sum.splits if_splits tensor.splits)

lemma make_pseudo_label_no_ValueError: "fst (make_pseudo_label rnd a fs) \<noteq> Inl (ValueError m)"
  using add_scores_no_ValueError [of rnd a fs]
  by (auto simp: make_pseudo_label_def compute_pseudo_label_def torch_load_def Let_def
      pseudo_label_precision_recall_def
      split: option.splits sum.splits if_splits tensor.splits)

lemma make_pseudo_label_done:
  assumes "make_pseudo_label rnd a fs = (Inr u, fs')"
  shows "path_exists fs' (ospj (checkpoint_dir a) ''wrong_index_final.pth'')
         \<and> checkpoints fs' = checkpoints fs"
  using assms
  by (auto simp: make_pseudo_label_def Let_def torch_save_def path_exists_def
      split: sum.splits if_splits)

lemma load_upweight_no_ValueError: "load_upweight rnd a fs pth \<noteq> Inl (ValueError m)"
  by (auto simp: load_upweight_def torch_load_def np_load_def split: option.splits)

lemma train_with_oversampling_ValueError:
  "(\<exists>m. fst (train_with_oversampling rnd a fs) = Inl (ValueError m)) \<longleftrightarrow>
     (case oversample_pth a of
        Some pth \<Rightarrow> \<not> path_exists fs pth \<or> (simclr_epochs a, ''biased_simclr'') \<notin> checkpoints fs
      | None \<Rightarrow>
          (path_exists fs (ospj (checkpoint_dir a) ''wrong_index_final.pth'')
             \<or> fst (make_pseudo_label rnd a fs) = Inr ())
          \<and> (simclr_epochs a, ''biased_simclr'') \<notin> checkpoints fs)"
proof (cases "oversample_pth a")
  case (Some pth)
  then show ?thesis
    using load_upweight_no_ValueError [of rnd a fs pth]
    by (auto simp: train_with_oversampling_def load_checkpoint_def split: sum.splits)
next
  case None
  show ?thesis
  proof (cases "path_exists fs (ospj (checkpoint_dir a) ''wrong_index_final.pth'')")
    case True
    with None show ?thesis
      using load_upweight_no_ValueError [of rnd a fs "ospj (checkpoint_dir a) ''wrong_index_final.pth''"]
      by (auto simp: train_with_oversampling_def load_checkpoint_def split: sum.splits)
  next
    case False
    obtain r fs' where mk: "make_pseudo_label rnd a fs = (r, fs')"
      by (cases "make_pseudo_label rnd a fs")
    show ?thesis
    proof (cases r)
      case (Inl e)
      with mk make_pseudo_label_no_ValueError [of rnd a fs] have "\<And>m. e \<noteq> ValueError m"
        by auto
      with None False mk Inl show ?thesis
        by (auto simp: train_with_oversampling_def)
    next
      case (Inr u)
      with mk make_pseudo_label_done [of rnd a fs u fs'] have
        d: "path_exists fs' (ospj (checkpoint_dir a) ''wrong_index_final.pth'')"
          "checkpoints fs' = checkpoints fs"
        by auto
      with None False mk Inr show ?thesis
        using load_upweight_no_ValueError [of rnd a fs' "ospj (checkpoint_dir a) ''wrong_index_final.pth''"]
        by (auto simp: train_with_oversampling_def load_checkpoint_def split: sum.splits)
    qed
  qed
qed

lemma column_no_AttributeError: "column rows k \<noteq> Inl AttributeError"
  by (simp add: column_def)

lemma index_select_no_AttributeError: "index_select xs js \<noteq> Inl AttributeError"
  by (simp add: index_select_def)

lemma build_blonde_no_AttributeError: "build_blonde env cattr b t \<noteq> Inl AttributeError"
  by (auto simp: build_blonde_def column_def Let_def split: sum.splits)

lemma select_target_AttributeError:
  "fst (select_target env rd split ta cattr fs) = Inl AttributeError \<longleftrightarrow>
     ta \<noteq> ''blonde'' \<and> ta \<noteq> ''makeup''"
  using build_blonde_no_AttributeError [of env cattr 20 9]
  by (auto simp: select_target_def Let_def index_select_def
      split: sum.splits option.splits prod.splits if_splits)

lemma random_split_no_AttributeError:
  "fst (random_split env split ta rows ind fs) \<noteq> Inl AttributeError"
proof (cases "split \<in> {''train'', ''valid''}")
  case False
  then show ?thesis by (simp add: random_split_def)
next
  case True
  show ?thesis
  proof (cases "pickles fs (rand_indices_path ta)")
    case None
    with True show ?thesis
      by (cases "''clusters'' \<in> dirs fs")
         (simp_all add: random_split_def Let_def index_select_def)
  next
    case (Some perm)
    with True show ?thesis
      by (simp add: random_split_def Let_def index_select_def)
  qed
qed

lemma init_AttributeError:
  assumes "celeba_attr env (if split = ''valid'' then ''train'' else split) = Inr cattr"
  shows "fst (BiasedCelebASplit_init env rd split ta fs) = Inl AttributeError \<longleftrightarrow>
           ta \<noteq> ''blonde'' \<and> ta \<noteq> ''makeup''"
proof -
  obtain r fs' where st: "select_target env rd split ta cattr fs = (r, fs')"
    by (cases "select_target env rd split ta cattr fs")
  show ?thesis
  proof (cases r)
    case (Inl e)
    with st assms select_target_AttributeError [of env rd split ta cattr fs] show ?thesis
      by (auto simp: BiasedCelebASplit_init_def)
  next
    case (Inr x)
    obtain t rows ind where x: "x = (t, rows, ind)" by (cases x)
    from st Inr select_target_AttributeError [of env rd split ta cattr fs]
    have known: "\<not> (ta \<noteq> ''blonde'' \<and> ta \<noteq> ''makeup'')" by auto
    have "fst (BiasedCelebASplit_init env rd split ta fs) \<noteq> Inl AttributeError"
      using assms st Inr x random_split_no_AttributeError [of env split ta rows ind fs']
        column_no_AttributeError
      by (auto simp: BiasedCelebASplit_init_def split: sum.splits prod.splits)
    with known show ?thesis by blast
  qed
qed

lemma forward_NameError:
  "GeneralizedCELoss_forward K q logits tgts = Inl (NameError m) \<longleftrightarrow>
     (k_isnan K (k_mean K (concat (map (k_softmax K) logits))) \<and> m = ''GCE_p'') \<or>
     (\<not> k_isnan K (k_mean K (concat (map (k_softmax K) logits))) \<and>
      (\<exists>Yg. gather_targets (map (k_softmax K) logits) tgts = Inr Yg \<and> k_isnan K (k_mean K Yg)) \<and>
      m = ''GCE_Yg'')"
  by (auto simp: GeneralizedCELoss_forward_def Let_def gather_targets_def cross_entropy_none_def
      split: sum.splits if_splits)

text \<open>
  Claim C3, as amended. The sanity check of the generalized cross-entropy loss is not the
  only explicit error signalling. The program raises explicitly in three places:
  \<open>GeneralizedCELoss.forward\<close> raises a \<open>NameError\<close> exactly when one of its two NaN
  checks fires; \<open>train_with_oversampling\<close> raises a \<open>ValueError\<close> exactly when a given
  \<open>oversample_pth\<close> does not exist, or when the file of the wrong labels is in place and
  the SimCLR checkpoint cannot be loaded; \<open>BiasedCelebASplit.__init__\<close> raises an
  \<open>AttributeError\<close> exactly when the target attribute is neither \<open>blonde\<close> nor
  \<open>makeup\<close>.
\<close>

theorem C3_explicit_raises:
  "(GeneralizedCELoss_forward K q logits tgts = Inl (NameError m) \<longleftrightarrow>
      (k_isnan K (k_mean K (concat (map (k_softmax K) logits))) \<and> m = ''GCE_p'') \<or>
      (\<not> k_isnan K (k_mean K (concat (map (k_softmax K) logits))) \<and>
       (\<exists>Yg. gather_targets (map (k_softmax K) logits) tgts = Inr Yg \<and> k_isnan K (k_mean K Yg)) \<and>
       m = ''GCE_Yg'')) \<and>
   ((\<exists>m'. fst (train_with_oversampling rnd a fs) = Inl (ValueError m')) \<longleftrightarrow>
      (case oversample_pth a of
         Some pth \<Rightarrow> \<not> path_exists fs pth \<or> (simclr_epochs a, ''biased_simclr'') \<notin> checkpoints fs
       | None \<Rightarrow>
           (path_exists fs (ospj (checkpoint_dir a) ''wrong_index_final.pth'')
              \<or> fst (make_pseudo_label rnd a fs) = Inr ())
           \<and> (simclr_epochs a, ''biased_simclr'') \<notin> checkpoints fs)) \<and>
   (celeba_attr env (if split = ''valid'' then ''train'' else split) = Inr cattr \<longrightarrow>
      (fst (BiasedCelebASplit_init env rd split ta cfs) = Inl AttributeError \<longleftrightarrow>
         ta \<noteq> ''blonde'' \<and> ta \<noteq> ''makeup''))"
  using forward_NameError [of K q logits tgts m] train_with_oversampling_ValueError [of rnd a fs]
    init_AttributeError [of env split cattr rd ta cfs]
  by blast

theorem C3_explicit_raises_witness:
  "GeneralizedCELoss_forward ideal_kernel (Some (7/10)) [[None, Some 0]] [0]
     = Inl (NameError ''GCE_p'') \<and>
   (\<exists>m'. fst (train_with_oversampling (\<lambda>x. x)
       \<lparr>data = ''celebA'', checkpoint_dir = ''ckpt'', lambda_list = [0], cutoff = 1/2,
        score_file_template = (\<lambda>_. ''s''), oversample_pth = Some ''w.pth'', finetune = False,
        finetune_ratio = ''0.1'', lambda_upweight = 5, simclr_epochs = 1\<rparr>
       \<lparr>tensors = Map.empty, arrays = Map.empty, checkpoints = {}\<rparr>) = Inl (ValueError m')) \<and>
   fst (BiasedCelebASplit_init
       \<lparr>celeba_attr = (\<lambda>s. Inr []), randperm = (\<lambda>n. [0..<n]), random_interval = (\<lambda>i. 0)\<rparr>
       ''r'' ''train'' ''smiling'' \<lparr>pickles = Map.empty, dirs = {}\<rparr>) = Inl AttributeError"
  using C3_explicit_raises [of ideal_kernel "Some (7/10)" "[[None, Some 0]]" "[0]" "''GCE_p''" "\<lambda>x. x"
      "\<lparr>data = ''celebA'', checkpoint_dir = ''ckpt'', lambda_list = [0], cutoff = 1/2,
        score_file_template = (\<lambda>_. ''s''), oversample_pth = Some ''w.pth'', finetune = False,
        finetune_ratio = ''0.1'', lambda_upweight = 5, simclr_epochs = 1\<rparr>"
      "\<lparr>tensors = Map.empty, arrays = Map.empty, checkpoints = {}\<rparr>"
      "\<lparr>celeba_attr = (\<lambda>s. Inr []), randperm = (\<lambda>n. [0..<n]), random_interval = (\<lambda>i. 0)\<rparr>"
      "''train''" "[]" "''r''" "''smiling''" "\<lparr>pickles = Map.empty, dirs = {}\<rparr>"]
  by (simp add: ideal_kernel_def ideal_softmax_def ideal_mean_def path_exists_def)

theorem C3_counterexample:
  "fst (train_with_oversampling (\<lambda>x. x)
       \<lparr>data = ''celebA'', checkpoint_dir = ''ckpt'', lambda_list = [0], cutoff = 1/2,
        score_file_template = (\<lambda>_. ''s''), oversample_pth = Some ''w.pth'', finetune = False,
        finetune_ratio = ''0.1'', lambda_upweight = 5, simclr_epochs = 1\<rparr>
       \<lparr>tensors = Map.empty, arrays = Map.empty, checkpoints = {}\<rparr>)
     = Inl (ValueError ''w.pth does not exists'') \<and>
   fst (BiasedCelebASplit_init
       \<lparr>celeba_attr = (\<lambda>s. Inr []), randperm = (\<lambda>n. [0..<n]), random_interval = (\<lambda>i. 0)\<rparr>
       ''r'' ''test'' ''smiling'' \<lparr>pickles = Map.empty, dirs = {}\<rparr>) = Inl AttributeError"
  by (simp add: train_with_oversampling_def path_exists_def BiasedCelebASplit_init_def
      select_target_def)

section \<open>Properties of save\_score\_idx\<close>


lemma write_scores_length:
  "write_scores es T = Inr T' \<Longrightarrow>
     length (score_idx T') = length (score_idx T) \<and>
     length (wrong_idx T') = length (wrong_idx T)"
  by (induction es T rule: write_scores.induct) (auto split: if_splits)







lemma argmax_from_first_max:
  assumes "bi < i" and "length pre = i" and "pre ! bi = bv"
    and "\<forall>j < i. pre ! j \<le> bv" and "\<forall>j < bi. pre ! j < bv"
  shows "argmax_from bi bv i xs < i + length xs \<and>
         (\<forall>j < i + length xs. (pre @ xs) ! j \<le> (pre @ xs) ! argmax_from bi bv i xs) \<and>
         (\<forall>j < argmax_from bi bv i xs. (pre @ xs) ! j < (pre @ xs) ! argmax_from bi bv i xs)"
  using assms
proof (induction xs arbitrary: bi bv i pre)
  case Nil
  then show ?case by simp
next
  case (Cons x xs)
  let ?pre = "pre @ [x]"
  have app: "?pre @ xs = pre @ x # xs" by simp
  show ?case
  proof (cases "bv < x")
    case True
    have 1: "i < Suc i" by simp
    have 2: "length ?pre = Suc i" using Cons.prems(2) by simp
    have 3: "?pre ! i = x" using Cons.prems(2) by (auto simp: nth_append)
    have 4: "\<forall>j < Suc i. ?pre ! j \<le> x"
    proof (intro allI impI)
      fix j assume "j < Suc i"
      show "?pre ! j \<le> x"
      proof (cases "j < i")
        case True
        then have "?pre ! j = pre ! j" using Cons.prems(2) by (simp add: nth_append)
        with Cons.prems(4) True \<open>bv < x\<close> show ?thesis by force
      next
        case False
        with \<open>j < Suc i\<close> have "j = i" by simp
        with 3 show ?thesis by simp
      qed
    qed
    have 5: "\<forall>j < i. ?pre ! j < x"
    proof (intro allI impI)
      fix j assume "j < i"
      then have "?pre ! j = pre ! j" using Cons.prems(2) by (simp add: nth_append)
      with Cons.prems(4) \<open>j < i\<close> \<open>bv < x\<close> show "?pre ! j < x" by force
    qed
    from Cons.IH [OF 1 2 3 4 5] True show ?thesis
      unfolding app by simp
  next
    case False
    have 1: "bi < Suc i" using Cons.prems(1) by simp
    have 2: "length ?pre = Suc i" using Cons.prems(2) by simp
    have 3: "?pre ! bi = bv" using Cons.prems(1,2,3) by (simp add: nth_append)
    have 4: "\<forall>j < Suc i. ?pre ! j \<le> bv"
    proof (intro allI impI)
      fix j assume "j < Suc i"
      show "?pre ! j \<le> bv"
      proof (cases "j < i")
        case True
        then have "?pre ! j = pre ! j" using Cons.prems(2) by (simp add: nth_append)
        with Cons.prems(4) True show ?thesis by simp
      next
        case F: False
        with \<open>j < Suc i\<close> have "j = i" by simp
        then have "?pre ! j = x" using Cons.prems(2) by (auto simp: nth_append)
        with False show ?thesis by simp
      qed
    qed
    have 5: "\<forall>j < bi. ?pre ! j < bv"
    proof (intro allI impI)
      fix j assume "j < bi"
      then have "?pre ! j = pre ! j" using Cons.prems(1,2) by (simp add: nth_append)
      with Cons.prems(5) \<open>j < bi\<close> show "?pre ! j < bv" by simp
    qed
    from Cons.IH [OF 1 2 3 4 5] False show ?thesis
      unfolding app by simp
  qed
qed

lemma argmax_first_max:
  assumes "row \<noteq> []"
  shows "argmax row < length row \<and>
         (\<forall>j < length row. row ! j \<le> row ! argmax row) \<and>
         (\<forall>j < argmax row. row ! j < row ! argmax row)"
proof -
  from assms obtain x xs where row: "row = x # xs"
    by (cases row) auto
  have "argmax_from 0 x 1 xs < 1 + length xs \<and>
         (\<forall>j < 1 + length xs. ([x] @ xs) ! j \<le> ([x] @ xs) ! argmax_from 0 x 1 xs) \<and>
         (\<forall>j < argmax_from 0 x 1 xs. ([x] @ xs) ! j < ([x] @ xs) ! argmax_from 0 x 1 xs)"
    by (rule argmax_from_first_max) simp_all
  then show ?thesis
    unfolding row argmax_def by simp
qed




end
